theory Spec2Isabelle
  imports Main "HOL-Library.Sublist"
begin

section \<open>Strings: the library calls the sources make\<close>

text \<open>
  Go strings are byte sequences; they are modelled as \<open>string\<close> (a list of 8-bit
  \<open>char\<close>). \<open>strings.HasPrefix\<close> is \<open>prefix\<close>, concatenation is \<open>@\<close>.
\<close>

text \<open>
  \<open>strings.SplitN(s, sep, n)\<close> for a one-byte separator and \<open>n \<ge> 0\<close>: at most \<open>n\<close>
  pieces, the last one being the unsplit remainder; \<open>n = 0\<close> gives the empty slice.
  \<open>cut_at c s\<close> is the text before the first \<open>c\<close> and the text after it, when
  \<open>s\<close> holds one.
\<close>

fun cut_at :: "char \<Rightarrow> string \<Rightarrow> (string \<times> string) option" where
  "cut_at c [] = None"
| "cut_at c (x # xs) =
     (if x = c then Some ([], xs)
      else (case cut_at c xs of None \<Rightarrow> None | Some (a, b) \<Rightarrow> Some (x # a, b)))"

fun SplitN :: "string \<Rightarrow> char \<Rightarrow> nat \<Rightarrow> string list" where
  "SplitN s c 0 = []"
| "SplitN s c (Suc 0) = [s]"
| "SplitN s c (Suc (Suc n)) =
     (case cut_at c s of None \<Rightarrow> [s] | Some (a, b) \<Rightarrow> a # SplitN b c (Suc n))"

text \<open>
  \<open>strings.TrimSpace\<close> removes leading and trailing white space as \<open>unicode.IsSpace\<close>
  defines it. On bytes these are the UTF-8 encodings below: tab, line feed, vertical tab,
  form feed, carriage return, space, U+0085, U+00A0, U+1680, U+2000 to U+200A, U+2028,
  U+2029, U+202F, U+205F and U+3000. A byte sequence that is not valid UTF-8 decodes to
  U+FFFD, which is not white space, so trimming stops there.
\<close>

definition space_encodings :: "string list" where
  "space_encodings =
     [[CHR 0x09], [CHR 0x0A], [CHR 0x0B], [CHR 0x0C], [CHR 0x0D], [CHR 0x20],
      [CHR 0xC2, CHR 0x85], [CHR 0xC2, CHR 0xA0],
      [CHR 0xE1, CHR 0x9A, CHR 0x80],
      [CHR 0xE2, CHR 0x80, CHR 0x80], [CHR 0xE2, CHR 0x80, CHR 0x81],
      [CHR 0xE2, CHR 0x80, CHR 0x82], [CHR 0xE2, CHR 0x80, CHR 0x83],
      [CHR 0xE2, CHR 0x80, CHR 0x84], [CHR 0xE2, CHR 0x80, CHR 0x85],
      [CHR 0xE2, CHR 0x80, CHR 0x86], [CHR 0xE2, CHR 0x80, CHR 0x87],
      [CHR 0xE2, CHR 0x80, CHR 0x88], [CHR 0xE2, CHR 0x80, CHR 0x89],
      [CHR 0xE2, CHR 0x80, CHR 0x8A],
      [CHR 0xE2, CHR 0x80, CHR 0xA8], [CHR 0xE2, CHR 0x80, CHR 0xA9],
      [CHR 0xE2, CHR 0x80, CHR 0xAF], [CHR 0xE2, CHR 0x81, CHR 0x9F],
      [CHR 0xE3, CHR 0x80, CHR 0x80]]"

text \<open>\<open>strip_leading encs s\<close> drops from the front of \<open>s\<close> every occurrence of one of
  the non-empty byte sequences \<open>encs\<close>, until none is a prefix of what is left.\<close>

function strip_leading :: "string list \<Rightarrow> string \<Rightarrow> string" where
  "strip_leading encs s =
     (case find (\<lambda>e. e \<noteq> [] \<and> prefix e s) encs of
        None \<Rightarrow> s
      | Some e \<Rightarrow> strip_leading encs (drop (length e) s))"
  by pat_completeness auto
termination
proof (relation "measure (\<lambda>(encs, s). length s)")
  show "wf (measure (\<lambda>(encs, s). length s))" by simp
next
  fix encs :: "string list" and s :: string and e :: string
  assume found: "find (\<lambda>e. e \<noteq> [] \<and> prefix e s) encs = Some e"
  from found have ne: "e \<noteq> []"
    by (auto simp: find_Some_iff)
  from found have pre: "prefix e s"
    by (auto simp: find_Some_iff)
  from pre obtain t where s: "s = e @ t"
    by (auto simp: prefix_def)
  from ne have "length (drop (length e) s) < length s"
    by (simp add: s)
  then show "((encs, drop (length e) s), (encs, s)) \<in> measure (\<lambda>(encs, s). length s)"
    by simp
qed

declare strip_leading.simps [simp del]

definition TrimSpace :: "string \<Rightarrow> string" where
  "TrimSpace s =
     rev (strip_leading (map rev space_encodings) (rev (strip_leading space_encodings s)))"

text \<open>
  \<open>bufio.Scanner\<close> with its default split function \<open>ScanLines\<close>: the text is cut at
  every line feed, a last line without a line feed is a token when it is not empty, and
  one trailing carriage return is dropped from each token. A line of 65536 bytes or more
  does not fit the scanner's buffer (\<open>MaxScanTokenSize\<close>): \<open>Scan\<close> then returns
  false, so the tokens end before that line.
\<close>

fun raw_lines :: "string \<Rightarrow> string \<Rightarrow> string list" where
  "raw_lines cur [] = (if cur = [] then [] else [cur])"
| "raw_lines cur (c # cs) =
     (if c = CHR 0x0A then cur # raw_lines [] cs else raw_lines (cur @ [c]) cs)"

definition MaxScanTokenSize :: nat where
  "MaxScanTokenSize = 65536"

definition dropCR :: "string \<Rightarrow> string" where
  "dropCR l = (if l \<noteq> [] \<and> last l = CHR 0x0D then butlast l else l)"

definition scan_tokens :: "string \<Rightarrow> string list" where
  "scan_tokens buf =
     map dropCR (takeWhile (\<lambda>l. length l < MaxScanTokenSize) (raw_lines [] buf))"

section \<open>Refs\<close>

text \<open>
  The struct \<open>Ref\<close> has the fields \<open>SHA\<close>, \<open>Path\<close> and a pointer \<open>r\<close> to the
  repository that owns it. The record keeps the two strings; the repository the pointer
  leads to is the state every operation below takes and returns.
\<close>

record Ref =
  SHA :: string
  Path :: string

definition IsLocal :: "Ref \<Rightarrow> bool" where
  "IsLocal r = prefix ''refs/heads/'' (Path r)"

definition IsRemote :: "Ref \<Rightarrow> bool" where
  "IsRemote r = prefix ''refs/remotes/'' (Path r)"

definition IsTag :: "Ref \<Rightarrow> bool" where
  "IsTag r = prefix ''refs/tags/'' (Path r)"

definition IsHead :: "Ref \<Rightarrow> bool" where
  "IsHead r = (Path r = ''HEAD'')"

definition IsRaw :: "Ref \<Rightarrow> bool" where
  "IsRaw r = (SHA r = Path r)"

text \<open>\<open>Name\<close> takes the last element of \<open>SplitN(Path, "/", 3)\<close>. The slice is never
  empty, so the index \<open>len(k) - 1\<close> is always in range.\<close>

definition Name :: "Ref \<Rightarrow> string" where
  "Name r = last (SplitN (Path r) CHR ''/'' 3)"

section \<open>Errors, panics and the external tool\<close>

text \<open>
  A Go \<open>error\<close> value is modelled by its message; \<open>nil\<close> is \<open>None\<close> of
  \<open>error option\<close>. A panic ends the call: it is the \<open>Panic\<close> branch of the result,
  with the panic's message, or the run-time error of an index out of range or of a nil
  pointer dereference.
\<close>

type_synonym error = string

datatype panic = PanicMsg string | IndexOutOfRange | NilDereference

datatype 'a result = Panic panic | Ret 'a

text \<open>
  \<open>Repo.Git\<close> builds an \<open>exec.Cmd\<close> for the git executable with the given arguments
  and a directory; \<open>cmd.Run()\<close> starts it, waits, and returns an error when it could
  not run or exited with a failure. What git does is not part of the sources: it is the
  parameter \<open>git\<close> of every operation, a function from the directory, the arguments
  and the state of the world outside the program to the outcome of the run and the new
  state of the world.
\<close>

record Cmd =
  Dir :: string
  Args :: "string list"

record outcome =
  run_err :: "error option"
  stdout :: string
  stderr :: string

type_synonym 'w tool = "string \<Rightarrow> string list \<Rightarrow> 'w \<Rightarrow> outcome \<times> 'w"

section \<open>The repository\<close>

text \<open>
  The struct \<open>Repo\<close>. \<open>RefMap\<close> is \<open>map[string]*Ref\<close> and \<open>ConfigMap\<close> is
  \<open>map[string]string\<close>; a nil map is \<open>None\<close>. The sources never store a nil
  \<open>*Ref\<close> in the map, so a key is present exactly when its value is not nil.
\<close>

record Repo =
  GitDir :: string
  WorkDir :: string
  refs :: "(string \<rightharpoonup> Ref) option"
  cfg :: "(string \<rightharpoonup> string) option"

datatype store_op = SetKey string string | KillSection string

text \<open>
  The state an operation works on: the repository struct, the world outside, the commands
  run so far (oldest first), and the configuration store with the writes made to it so
  far (oldest first).
\<close>

record 'w system =
  repo :: Repo
  world :: 'w
  calls :: "Cmd list"
  store :: "string \<rightharpoonup> string"
  store_ops :: "store_op list"

definition Repo_Git :: "Repo \<Rightarrow> string \<Rightarrow> string list \<Rightarrow> Cmd" where
  "Repo_Git r cmd args =
     (let path = (if WorkDir r = [] then GitDir r else WorkDir r)
      in \<lparr>Dir = path, Args = cmd # args\<rparr>)"

definition Run :: "'w tool \<Rightarrow> Cmd \<Rightarrow> 'w system \<Rightarrow> outcome \<times> 'w system" where
  "Run git cmd s =
     (case git (Dir cmd) (Args cmd) (world s) of
        (oc, w) \<Rightarrow> (oc, s\<lparr>world := w, calls := calls s @ [cmd]\<rparr>))"

subsection \<open>Loading the ref cache\<close>

text \<open>The body of the scanner loop of \<open>load_refs\<close>, one token at a time. \<open>parts[1]\<close>
  is out of range when the trimmed line holds no space.\<close>

fun load_loop :: "string list \<Rightarrow> (string \<rightharpoonup> Ref) \<Rightarrow> (string \<rightharpoonup> Ref) result" where
  "load_loop [] res = Ret res"
| "load_loop (text # rest) res =
     (case SplitN (TrimSpace text) CHR '' '' 2 of
        p0 # p1 # _ \<Rightarrow>
          (let ref = \<lparr>SHA = p0, Path = p1\<rparr> in load_loop rest (res(Name ref \<mapsto> ref)))
      | _ \<Rightarrow> Panic IndexOutOfRange)"

definition set_refs :: "(string \<rightharpoonup> Ref) option \<Rightarrow> 'w system \<Rightarrow> 'w system" where
  "set_refs m s = s\<lparr>repo := (repo s)\<lparr>refs := m\<rparr>\<rparr>"

definition load_refs :: "'w tool \<Rightarrow> 'w system \<Rightarrow> unit result \<times> 'w system" where
  "load_refs git s =
     (case refs (repo s) of
        Some _ \<Rightarrow> (Ret (), s)
      | None \<Rightarrow>
          (case Run git (Repo_Git (repo s) ''show-ref'' []) s of
             (oc, s1) \<Rightarrow>
               if run_err oc \<noteq> None then (Panic (PanicMsg (stderr oc)), s1)
               else (case load_loop (scan_tokens (stdout oc)) Map.empty of
                       Panic p \<Rightarrow> (Panic p, s1)
                     | Ret res \<Rightarrow> (Ret (), set_refs (Some res) s1))))"

definition ReloadRefs :: "'w system \<Rightarrow> 'w system" where
  "ReloadRefs s = set_refs None s"

text \<open>Indexing \<open>r.refs[k]\<close>: a nil map and a missing key both give the zero value.\<close>

definition refs_get :: "Repo \<Rightarrow> string \<Rightarrow> Ref option" where
  "refs_get r k = (case refs r of None \<Rightarrow> None | Some m \<Rightarrow> m k)"

subsection \<open>Operations on a ref\<close>

text \<open>The tail of \<open>Delete\<close> after the classification: run \<open>git <c> -d <name>\<close> and, when
  it succeeded, delete the name from the cache (deleting from a nil map does nothing).\<close>

definition delete_run :: "'w tool \<Rightarrow> string \<Rightarrow> Ref \<Rightarrow> 'w system \<Rightarrow> error option result \<times> 'w system" where
  "delete_run git c r s =
     (case Run git (Repo_Git (repo s) c [''-d'', Name r]) s of
        (oc, s1) \<Rightarrow>
          (case run_err oc of
             None \<Rightarrow>
               (Ret None, set_refs (map_option (\<lambda>m. m(Name r := None)) (refs (repo s1))) s1)
           | Some e \<Rightarrow> (Ret (Some e), s1)))"

definition Delete :: "'w tool \<Rightarrow> Ref \<Rightarrow> 'w system \<Rightarrow> error option result \<times> 'w system" where
  "Delete git r s =
     (if IsRemote r then (Ret (Some ''Cannot delete a remote ref!''), s)
      else if IsHead r then (Ret (Some ''Cannot delete HEAD!''), s)
      else if IsTag r then delete_run git ''tag'' r s
      else if IsLocal r then delete_run git ''branch'' r s
      else (Panic (PanicMsg ''Cannot happen!''), s))"

definition RemoteBranch :: "Ref \<Rightarrow> string \<Rightarrow> 'w system \<Rightarrow> Ref option \<times> error option" where
  "RemoteBranch r remote s =
     (if \<not> IsLocal r
      then (None, Some (Path r @ '' is not a branch, cannot find remote tracking branch.''
                         @ [CHR 0x0A]))
      else (case refs_get (repo s) (''refs/remotes/'' @ remote @ ''/'' @ Name r) of
              None \<Rightarrow> (None, Some (Path r @ '' has no remote branch at '' @ remote @ [CHR 0x0A]))
            | Some res \<Rightarrow> (Some res, None)))"

text \<open>\<open>Contains\<close> takes a pointer \<open>other\<close>; reading \<open>other.SHA\<close> through a nil pointer
  panics. The revision list is in the command's output buffer.\<close>

definition Contains :: "'w tool \<Rightarrow> Ref \<Rightarrow> Ref option \<Rightarrow> 'w system \<Rightarrow> (bool \<times> error option) result \<times> 'w system" where
  "Contains git r other s =
     (case other of
        None \<Rightarrow> (Panic NilDereference, s)
      | Some other \<Rightarrow>
          if SHA r = SHA other then (Ret (True, None), s)
          else (case Run git (Repo_Git (repo s) ''rev-list'' [SHA other, ''^'' @ SHA r]) s of
                  (oc, s1) \<Rightarrow>
                    (case run_err oc of
                       Some e \<Rightarrow> (Ret (False, Some e), s1)
                     | None \<Rightarrow> (Ret (length (stdout oc) = 0, None), s1))))"

definition HasRef :: "'w tool \<Rightarrow> string \<Rightarrow> 'w system \<Rightarrow> bool result \<times> 'w system" where
  "HasRef git ref s =
     (case load_refs git s of
        (Panic p, s1) \<Rightarrow> (Panic p, s1)
      | (Ret _, s1) \<Rightarrow> (Ret (refs_get (repo s1) ref \<noteq> None), s1))"

definition HasRemoteRef :: "'w tool \<Rightarrow> Ref \<Rightarrow> string \<Rightarrow> 'w system \<Rightarrow> bool result \<times> 'w system" where
  "HasRemoteRef git r remote s =
     (if \<not> IsLocal r then (Ret False, s)
      else HasRef git (''refs/remotes/'' @ remote @ ''/'' @ Name r) s)"

subsection \<open>The configuration store\<close>

text \<open>
  \<open>TrackRemote\<close> calls \<open>Repo.Get\<close>, \<open>Repo.Set\<close> and \<open>Repo.maybeKillSection\<close>,
  which are not among the sources. The spec describes what they work on as a key/value
  mapping with section-aware get, set and delete; it is the field \<open>store\<close> of the
  state, and every write and every cleared section is recorded in \<open>store_ops\<close>.
\<close>

text \<open>Modelled from the spec: \<open>Repo.Get\<close> is missing. It returns the value the store
  holds for the key and whether the key exists.\<close>

definition Get :: "'w system \<Rightarrow> string \<Rightarrow> string \<times> bool" where
  "Get s k = (case store s k of None \<Rightarrow> ([], False) | Some v \<Rightarrow> (v, True))"

text \<open>Modelled from the spec: \<open>Repo.Set\<close> is missing. It writes one key of the
  store.\<close>

definition Set :: "string \<Rightarrow> string \<Rightarrow> 'w system \<Rightarrow> 'w system" where
  "Set k v s = s\<lparr>store := (store s)(k \<mapsto> v), store_ops := store_ops s @ [SetKey k v]\<rparr>"

text \<open>Modelled from the spec: \<open>Repo.maybeKillSection\<close> is missing. It clears a section
  of the store: every key \<open>section.*\<close> is removed.\<close>

definition maybeKillSection :: "string \<Rightarrow> 'w system \<Rightarrow> 'w system" where
  "maybeKillSection section s =
     s\<lparr>store := (\<lambda>k. if prefix (section @ ''.'') k then None else store s k),
       store_ops := store_ops s @ [KillSection section]\<rparr>"

definition TrackRemote :: "Ref \<Rightarrow> string \<Rightarrow> 'w system \<Rightarrow> error option \<times> 'w system" where
  "TrackRemote r remote s =
     (if \<not> IsLocal r then (Some (Path r @ '' is not a branch, we cannot track it.''), s)
      else
        (let section = ''branch.'' @ Name r;
             (branch_remote, branch_remote_exists) = Get s (section @ ''.remote'');
             (branch_merge, branch_merge_exists) = Get s (section @ ''.merge'')
         in if branch_remote_exists \<and> branch_merge_exists \<and>
               branch_remote = remote \<and> branch_merge = Path r
            then (None, s)
            else
              (let s1 = (if branch_remote_exists \<or> branch_merge_exists
                         then maybeKillSection section s else s);
                   s2 = Set (section @ ''.remote'') remote s1;
                   s3 = Set (section @ ''.merge'') (Path r) s2
               in (None, s3))))"

subsection \<open>Resolving and creating refs\<close>

text \<open>The loop of \<open>Repo.Ref\<close> over the prefixes: the first cache entry that is not nil.\<close>

fun lookup_prefixes :: "Repo \<Rightarrow> string list \<Rightarrow> string \<Rightarrow> Ref option" where
  "lookup_prefixes r [] ref = None"
| "lookup_prefixes r (pre # pres) ref =
     (case refs_get r (pre @ ref) of
        Some res \<Rightarrow> Some res
      | None \<Rightarrow> lookup_prefixes r pres ref)"

definition ref_prefixes :: "string list" where
  "ref_prefixes = [[], ''refs/heads/'', ''refs/tags'', ''refs/remotes'']"

definition Repo_Ref :: "'w tool \<Rightarrow> string \<Rightarrow> 'w system \<Rightarrow> (Ref option \<times> error option) result \<times> 'w system" where
  "Repo_Ref git ref s =
     (case load_refs git s of
        (Panic p, s1) \<Rightarrow> (Panic p, s1)
      | (Ret _, s1) \<Rightarrow>
          (case lookup_prefixes (repo s1) ref_prefixes ref of
             Some res \<Rightarrow> (Ret (Some res, None), s1)
           | None \<Rightarrow>
               (case Run git (Repo_Git (repo s1) ''rev-parse'' [''-q'', ''--verify'', ref]) s1 of
                  (oc, s2) \<Rightarrow>
                    if run_err oc \<noteq> None
                    then (Ret (Some \<lparr>SHA = ref, Path = ref\<rparr>, None), s2)
                    else (Ret (None, Some (''No ref for '' @ ref)), s2))))"

text \<open>The parameter \<open>base\<close> of \<open>make_ref\<close> is an \<open>interface{}\<close>: the type switch
  tells a \<open>*Ref\<close> (which may be a nil pointer), a string, and everything else apart.\<close>

datatype base = BaseRef "Ref option" | BaseString string | BaseOther

definition create_run :: "'w tool \<Rightarrow> string \<Rightarrow> string \<Rightarrow> string \<Rightarrow> 'w system \<Rightarrow> (Ref option \<times> error option) result \<times> 'w system" where
  "create_run git reftype name start s =
     (case Run git (Repo_Git (repo s) reftype [name, start]) s of
        (oc, s1) \<Rightarrow>
          (case run_err oc of
             Some e \<Rightarrow> (Ret (None, Some e), s1)
           | None \<Rightarrow>
               (case load_refs git (set_refs None s1) of
                  (Panic p, s2) \<Rightarrow> (Panic p, s2)
                | (Ret _, s2) \<Rightarrow> (Ret (refs_get (repo s2) name, None), s2))))"

definition make_ref :: "'w tool \<Rightarrow> string \<Rightarrow> string \<Rightarrow> base \<Rightarrow> 'w system \<Rightarrow> (Ref option \<times> error option) result \<times> 'w system" where
  "make_ref git reftype name b s =
     (case load_refs git s of
        (Panic p, s1) \<Rightarrow> (Panic p, s1)
      | (Ret _, s1) \<Rightarrow>
          if name = ''HEAD'' then (Ret (None, Some ''Cannot create a branch named HEAD.''), s1)
          else if refs_get (repo s1) name \<noteq> None
          then (Ret (None, Some (name @ '' already exists.'')), s1)
          else if \<not> (reftype = ''branch'' \<or> reftype = ''tag'')
          then (Ret (None, Some ''Unknown ref type!''), s1)
          else (case b of
                  BaseRef None \<Rightarrow> (Panic NilDereference, s1)
                | BaseRef (Some i) \<Rightarrow> create_run git reftype name (Name i) s1
                | BaseString i \<Rightarrow> create_run git reftype name i s1
                | BaseOther \<Rightarrow> (Ret (None, Some ''Unknown type for base!''), s1)))"

definition Branch :: "'w tool \<Rightarrow> string \<Rightarrow> base \<Rightarrow> 'w system \<Rightarrow> (Ref option \<times> error option) result \<times> 'w system" where
  "Branch git name b s = make_ref git ''branch'' name b s"

definition Tag :: "'w tool \<Rightarrow> string \<Rightarrow> base \<Rightarrow> 'w system \<Rightarrow> (Ref option \<times> error option) result \<times> 'w system" where
  "Tag git name b s = make_ref git ''tag'' name b s"

section \<open>The status parser\<close>

record StatLine =
  indexStat :: string
  workStat :: string
  oldPath :: string
  newPath :: string

text \<open>
  \<open>statusRE\<close> is \<open>^([ MADRCU!?])([ MADRCU?!]) (.*)$\<close>. Without flags \<open>^\<close> and
  \<open>$\<close> match only at the two ends of the text and \<open>.\<close> matches every character but
  the line feed. \<open>FindStringSubmatch\<close> returns nil when the text does not match, and
  otherwise the text and its three groups.
\<close>

definition stat_code :: "char \<Rightarrow> bool" where
  "stat_code c = (c \<in> set '' MADRCU!?'')"

definition FindStringSubmatch :: "string \<Rightarrow> string list option" where
  "FindStringSubmatch line =
     (case line of
        x # y # z # path \<Rightarrow>
          if stat_code x \<and> stat_code y \<and> z = CHR '' '' \<and> CHR 0x0A \<notin> set path
          then Some [line, [x], [y], path] else None
      | _ \<Rightarrow> None)"

text \<open>
  \<open>bytes.Buffer.ReadString(delim)\<close> reads up to the first \<open>delim\<close> and returns what it
  read, the delimiter included; when the buffer holds no \<open>delim\<close> it returns the rest
  with the error \<open>io.EOF\<close>, which the loop of \<open>mapStatus\<close> takes as its end. The model
  returns the line and the rest of the buffer, or \<open>None\<close> for the error.
\<close>

definition ReadString :: "string \<Rightarrow> char \<Rightarrow> (string \<times> string) option" where
  "ReadString buf delim =
     (case cut_at delim buf of None \<Rightarrow> None | Some (a, b) \<Rightarrow> Some (a @ [delim], b))"

definition flush :: "StatLine option \<Rightarrow> StatLine list \<Rightarrow> StatLine list" where
  "flush thisStat res = (case thisStat of None \<Rightarrow> res | Some t \<Rightarrow> res @ [t])"

function mapStatus_loop :: "string \<Rightarrow> StatLine option \<Rightarrow> StatLine list \<Rightarrow> StatLine list result" where
  "mapStatus_loop buf thisStat res =
     (case ReadString buf (CHR 0x00) of
        None \<Rightarrow> Ret (flush thisStat res)
      | Some (line, rest) \<Rightarrow>
          (case FindStringSubmatch line of
             Some parts \<Rightarrow>
               mapStatus_loop rest
                 (Some \<lparr>indexStat = parts ! 1, workStat = parts ! 2,
                        oldPath = parts ! 3, newPath = parts ! 3\<rparr>)
                 (flush thisStat res)
           | None \<Rightarrow>
               (case thisStat of
                  Some t \<Rightarrow> mapStatus_loop rest (Some (t\<lparr>newPath := line\<rparr>)) res
                | None \<Rightarrow> Panic (PanicMsg ''Cannot happen!''))))"
  by pat_completeness auto
termination
proof -
  have shorter: "cut_at c s = Some (a, b) \<Longrightarrow> length b < length s"
    for c :: char and s a b :: string
    by (induction s arbitrary: a b) (auto split: if_splits option.splits)
  show ?thesis
    by (relation "measure (\<lambda>(buf, thisStat, res). length buf)")
       (auto simp: ReadString_def split: option.splits dest: shorter)
qed

declare mapStatus_loop.simps [simp del]

definition mapStatus :: "'w tool \<Rightarrow> 'w system \<Rightarrow> StatLine list result \<times> 'w system" where
  "mapStatus git s =
     (case Run git (Repo_Git (repo s) ''status'' [''--porcelain'', ''-z'']) s of
        (oc, s1) \<Rightarrow>
          if run_err oc \<noteq> None then (Panic (PanicMsg (stderr oc)), s1)
          else (mapStatus_loop (stdout oc) None [], s1))"

section \<open>Concrete tools and states\<close>

text \<open>A tool that answers from its arguments alone, over a world with nothing in it; the
  outcome of a run that succeeded with some output, and of one that failed.\<close>

definition scripted :: "(string list \<Rightarrow> outcome) \<Rightarrow> unit tool" where
  "scripted f dir args w = (f args, w)"

definition succeeded :: "string \<Rightarrow> outcome" where
  "succeeded text = \<lparr>run_err = None, stdout = text, stderr = []\<rparr>"

definition exited :: "string \<Rightarrow> outcome" where
  "exited msg = \<lparr>run_err = Some ''exit status 1'', stdout = [], stderr = msg\<rparr>"

definition fresh :: "unit system" where
  "fresh = \<lparr>repo = \<lparr>GitDir = ''/w/.git'', WorkDir = ''/w'', refs = None, cfg = None\<rparr>,
            world = (), calls = [], store = Map.empty, store_ops = []\<rparr>"

definition loaded :: "(string \<rightharpoonup> Ref) \<Rightarrow> unit system" where
  "loaded m = set_refs (Some m) fresh"

text \<open>The output of \<open>git show-ref\<close> in a repository with one branch, its
  remote-tracking branch and one tag, and a git that enumerates these refs, verifies
  every revision it is asked about, and fails on everything else.\<close>

definition show_ref_text :: string where
  "show_ref_text =
     ''1111 refs/heads/main'' @ [CHR 0x0A] @
     ''2222 refs/remotes/origin/main'' @ [CHR 0x0A] @
     ''3333 refs/tags/v1'' @ [CHR 0x0A]"

definition plain_git :: "unit tool" where
  "plain_git =
     scripted (\<lambda>args. if args = [''show-ref''] then succeeded show_ref_text
                      else if take 1 args = [''rev-parse''] then succeeded []
                      else exited ''fatal'')"

text \<open>The same repository, with a git that verifies no revision.\<close>

definition strict_git :: "unit tool" where
  "strict_git =
     scripted (\<lambda>args. if args = [''show-ref''] then succeeded show_ref_text
                      else exited ''fatal'')"

text \<open>A repository without any ref yet: there \<open>git show-ref\<close> finds nothing and
  exits with status 1, writing nothing.\<close>

definition empty_git :: "unit tool" where
  "empty_git =
     scripted (\<lambda>args. if args = [''show-ref''] then exited [] else succeeded [])"

definition plain_refs :: "string \<rightharpoonup> Ref" where
  "plain_refs =
     [''main'' \<mapsto> \<lparr>SHA = ''1111'', Path = ''refs/heads/main''\<rparr>,
      ''origin/main'' \<mapsto> \<lparr>SHA = ''2222'', Path = ''refs/remotes/origin/main''\<rparr>,
      ''v1'' \<mapsto> \<lparr>SHA = ''3333'', Path = ''refs/tags/v1''\<rparr>]"

definition ran_cmd :: "string list \<Rightarrow> Cmd" where
  "ran_cmd args = \<lparr>Dir = ''/w'', Args = args\<rparr>"

text \<open>A state whose configuration store holds the given keys.\<close>

definition configured :: "(string \<rightharpoonup> string) \<Rightarrow> unit system" where
  "configured m = fresh\<lparr>store := m\<rparr>"

text \<open>The status report of one rename, as \<open>git status --porcelain -z\<close> writes it: the
  record \<open>R  new.txt\<close>, NUL, \<open>old.txt\<close>, NUL; and a git that reports it.\<close>

definition rename_text :: string where
  "rename_text = ''R  new.txt'' @ [CHR 0x00] @ ''old.txt'' @ [CHR 0x00]"

definition status_git :: "unit tool" where
  "status_git =
     scripted (\<lambda>args. if args = [''status'', ''--porcelain'', ''-z'']
                      then succeeded rename_text else exited ''fatal'')"

text \<open>The standard forms of a ref path: \<open>HEAD\<close>, or \<open>refs/<type>/<rest>\<close>.\<close>

definition standard_form :: "string \<Rightarrow> bool" where
  "standard_form p =
     (p = ''HEAD'' \<or>
      (case SplitN p CHR ''/'' 3 of [a, t, rest] \<Rightarrow> a = ''refs'' | _ \<Rightarrow> False))"

text \<open>A repository with the branch \<open>main\<close> and a second branch whose name is
  \<open>refs/remotes/origin/main\<close>.\<close>

definition odd_text :: string where
  "odd_text =
     ''1111 refs/heads/main'' @ [CHR 0x0A] @
     ''4444 refs/heads/refs/remotes/origin/main'' @ [CHR 0x0A]"

definition odd_git :: "unit tool" where
  "odd_git =
     scripted (\<lambda>args. if args = [''show-ref''] then succeeded odd_text else exited ''fatal'')"

definition odd_refs :: "string \<rightharpoonup> Ref" where
  "odd_refs =
     [''main'' \<mapsto> \<lparr>SHA = ''1111'', Path = ''refs/heads/main''\<rparr>,
      ''refs/remotes/origin/main'' \<mapsto>
        \<lparr>SHA = ''4444'', Path = ''refs/heads/refs/remotes/origin/main''\<rparr>]"

section \<open>Evaluation lemmas\<close>

lemma SplitN_2: "SplitN s c 2 = (case cut_at c s of None \<Rightarrow> [s] | Some (a, b) \<Rightarrow> [a, b])"
  by (simp add: numeral_2_eq_2 split: option.splits)

lemma SplitN_3:
  "SplitN s c 3 =
     (case cut_at c s of
        None \<Rightarrow> [s]
      | Some (a, b) \<Rightarrow> (case cut_at c b of None \<Rightarrow> [a, b] | Some (a', b') \<Rightarrow> [a, a', b']))"
  by (simp add: numeral_3_eq_3 split: option.splits)

lemma cut_at_none: "c \<notin> set s \<Longrightarrow> cut_at c s = None"
  by (induction s) auto

lemma cut_at_first: "c \<notin> set a \<Longrightarrow> cut_at c (a @ c # b) = Some (a, b)"
  by (induction a) auto

lemmas run_simps = Run_def Repo_Git_def scripted_def succeeded_def exited_def fresh_def
  loaded_def set_refs_def

lemmas load_simps = load_refs_def scan_tokens_def MaxScanTokenSize_def dropCR_def
  TrimSpace_def strip_leading.simps space_encodings_def Name_def SplitN_2 SplitN_3

lemma load_refs_loaded: "refs (repo s) = Some m \<Longrightarrow> load_refs git s = (Ret (), s)"
  by (simp add: load_refs_def)

lemma load_refs_Ret_loaded:
  assumes "load_refs git s = (Ret u, s1)"
  shows "\<exists>m. refs (repo s1) = Some m"
  using assms
  by (auto simp: load_refs_def set_refs_def split: option.splits prod.splits if_splits result.splits)

section \<open>Ref names\<close>

text \<open>
  C4, as the spec states it: \<open>Name\<close> is the last path segment of \<open>Path\<close>, so that a
  remote-tracking ref \<open>refs/remotes/<remote>/<branch>\<close> is named \<open><branch>\<close>. The code
  splits into at most three pieces: for \<open>refs/remotes/origin/main\<close> the name is
  \<open>origin/main\<close>, not \<open>main\<close>.
\<close>

theorem Name_remote_keeps_remote:
  "Name \<lparr>SHA = ''2222'', Path = ''refs/remotes/origin/main''\<rparr> \<noteq> ''main''"
  by (simp add: Name_def SplitN_3)

text \<open>
  C4, amended: \<open>Name\<close> is the last of the at most three pieces that cutting \<open>Path\<close> at
  its first two slashes gives. It is \<open>Path\<close> itself when \<open>Path\<close> has no slash, the
  text after the slash when it has one, and everything after the second slash, further
  slashes included, when it has two or more. So \<open>refs/heads/<branch>\<close> is named
  \<open><branch>\<close>, and \<open>refs/remotes/<remote>/<branch>\<close> is named \<open><remote>/<branch>\<close>.
\<close>

theorem Name_after_second_slash:
  "(CHR ''/'' \<notin> set p \<longrightarrow> Name \<lparr>SHA = h, Path = p\<rparr> = p) \<and>
   (CHR ''/'' \<notin> set a \<and> CHR ''/'' \<notin> set b \<longrightarrow>
      Name \<lparr>SHA = h, Path = a @ ''/'' @ b\<rparr> = b) \<and>
   (CHR ''/'' \<notin> set a \<and> CHR ''/'' \<notin> set b \<longrightarrow>
      Name \<lparr>SHA = h, Path = a @ ''/'' @ b @ ''/'' @ c\<rparr> = c) \<and>
   Name \<lparr>SHA = h, Path = ''refs/heads/'' @ branch\<rparr> = branch \<and>
   Name \<lparr>SHA = h, Path = ''refs/remotes/'' @ remote @ ''/'' @ branch\<rparr>
     = remote @ ''/'' @ branch"
proof -
  have none: "CHR ''/'' \<notin> set p \<Longrightarrow> Name \<lparr>SHA = h, Path = p\<rparr> = p" for p
    by (simp add: Name_def SplitN_3 cut_at_none)
  have two: "Name \<lparr>SHA = h, Path = a @ ''/'' @ b @ ''/'' @ c\<rparr> = c"
    if "CHR ''/'' \<notin> set a" "CHR ''/'' \<notin> set b" for a b c
    using that by (simp add: Name_def SplitN_3 cut_at_first)
  have one: "Name \<lparr>SHA = h, Path = a @ ''/'' @ b\<rparr> = b"
    if "CHR ''/'' \<notin> set a" "CHR ''/'' \<notin> set b" for a b
    using that by (simp add: Name_def SplitN_3 cut_at_first cut_at_none)
  have heads: "Name \<lparr>SHA = h, Path = ''refs/heads/'' @ branch\<rparr> = branch"
    using two [of "''refs''" "''heads''" branch] by simp
  have remotes: "Name \<lparr>SHA = h, Path = ''refs/remotes/'' @ remote @ ''/'' @ branch\<rparr>
      = remote @ ''/'' @ branch"
    using two [of "''refs''" "''remotes''" "remote @ ''/'' @ branch"] by simp
  from none one two heads remotes show ?thesis by blast
qed

theorem Name_after_second_slash_witness:
  "Name \<lparr>SHA = ''0000'', Path = ''HEAD''\<rparr> = ''HEAD'' \<and>
   Name \<lparr>SHA = ''0000'', Path = ''refs/stash''\<rparr> = ''stash'' \<and>
   Name \<lparr>SHA = ''0000'', Path = ''refs/tags/v1/rc''\<rparr> = ''v1/rc'' \<and>
   Name \<lparr>SHA = ''0000'', Path = ''refs/remotes/origin/main''\<rparr> = ''origin/main''"
  using Name_after_second_slash [where p = "''HEAD''" and h = "''0000''" and a = "''refs''"
      and b = "''stash''" and c = "[]" and branch = "[]" and remote = "[]"]
    Name_after_second_slash [where p = "[]" and h = "''0000''" and a = "''refs''"
      and b = "''tags''" and c = "''v1/rc''" and remote = "''origin''"
      and branch = "''main''"]
  by simp

section \<open>Deleting a ref\<close>

text \<open>
  C6: for every ref whose \<open>Path\<close> is \<open>HEAD\<close> and for every remote ref (\<open>Path\<close>
  begins with \<open>refs/remotes/\<close>), \<open>Delete\<close> returns a descriptive error, runs no
  external command and leaves the ref cache as it was: the whole state, the list of
  commands run included, is the one it was called in.
\<close>

theorem Delete_guards:
  assumes "IsHead r \<or> IsRemote r"
  shows "Delete git r s =
           (Ret (Some (if IsRemote r then ''Cannot delete a remote ref!''
                       else ''Cannot delete HEAD!'')), s)"
  using assms by (auto simp: Delete_def)

theorem Delete_guards_witness:
  "Delete plain_git \<lparr>SHA = ''1111'', Path = ''HEAD''\<rparr>
      (loaded [''main'' \<mapsto> \<lparr>SHA = ''1111'', Path = ''refs/heads/main''\<rparr>])
     = (Ret (Some ''Cannot delete HEAD!''),
        loaded [''main'' \<mapsto> \<lparr>SHA = ''1111'', Path = ''refs/heads/main''\<rparr>]) \<and>
   Delete plain_git
      \<lparr>SHA = ''2222'', Path = ''refs/remotes/origin/main''\<rparr>
      (loaded [''main'' \<mapsto> \<lparr>SHA = ''1111'', Path = ''refs/heads/main''\<rparr>])
     = (Ret (Some ''Cannot delete a remote ref!''),
        loaded [''main'' \<mapsto> \<lparr>SHA = ''1111'', Path = ''refs/heads/main''\<rparr>])"
  using
    Delete_guards [of "\<lparr>SHA = ''1111'', Path = ''HEAD''\<rparr>" plain_git
      "loaded [''main'' \<mapsto> \<lparr>SHA = ''1111'', Path = ''refs/heads/main''\<rparr>]"]
    Delete_guards [of "\<lparr>SHA = ''2222'', Path = ''refs/remotes/origin/main''\<rparr>"
      plain_git
      "loaded [''main'' \<mapsto> \<lparr>SHA = ''1111'', Path = ''refs/heads/main''\<rparr>]"]
  by (simp add: IsHead_def IsRemote_def)

text \<open>
  C10: for every ref that is none of remote, HEAD, tag or local, for example the raw ref
  \<open>SHA = Path = deadbeef\<close>, \<open>Delete\<close> reaches the last branch and panics with
  \<open>Cannot happen!\<close>; it returns no error value and runs no command.
\<close>

theorem Delete_unclassified_panics:
  assumes "\<not> IsRemote r" and "\<not> IsHead r" and "\<not> IsTag r" and "\<not> IsLocal r"
  shows "Delete git r s = (Panic (PanicMsg ''Cannot happen!''), s)"
  using assms by (simp add: Delete_def)

theorem Delete_unclassified_panics_witness:
  "IsRaw \<lparr>SHA = ''deadbeef'', Path = ''deadbeef''\<rparr> \<and>
   Delete plain_git \<lparr>SHA = ''deadbeef'', Path = ''deadbeef''\<rparr> fresh
     = (Panic (PanicMsg ''Cannot happen!''), fresh)"
  using Delete_unclassified_panics [of "\<lparr>SHA = ''deadbeef'', Path = ''deadbeef''\<rparr>"
      plain_git fresh]
  by (simp add: IsRaw_def IsRemote_def IsHead_def IsTag_def IsLocal_def)

section \<open>Containment\<close>

text \<open>
  C9: for every ref \<open>r\<close>, \<open>r.Contains(r)\<close> returns \<open>(true, nil)\<close> and runs no revision
  query: the two SHAs are the same, so the state, with its list of commands run, is
  returned as it was.
\<close>

theorem Contains_reflexive: "Contains git r (Some r) s = (Ret (True, None), s)"
  by (simp add: Contains_def)

section \<open>Resolving a name\<close>

lemma load_plain:
  "load_refs plain_git fresh
     = (Ret (), set_refs (Some plain_refs) (fresh\<lparr>calls := [ran_cmd [''show-ref'']]\<rparr>))"
  by (simp add: run_simps load_simps plain_git_def show_ref_text_def plain_refs_def ran_cmd_def)

lemma load_strict:
  "load_refs strict_git fresh
     = (Ret (), set_refs (Some plain_refs) (fresh\<lparr>calls := [ran_cmd [''show-ref'']]\<rparr>))"
  by (simp add: run_simps load_simps strict_git_def show_ref_text_def plain_refs_def ran_cmd_def)

lemma Repo_Ref_hit:
  assumes "load_refs git s = (Ret (), s1)"
    and "lookup_prefixes (repo s1) ref_prefixes name = Some x"
  shows "Repo_Ref git name s = (Ret (Some x, None), s1)"
  using assms by (simp add: Repo_Ref_def)

lemma Repo_Ref_miss:
  assumes "load_refs git s = (Ret (), s1)"
    and "lookup_prefixes (repo s1) ref_prefixes name = None"
    and "Run git (Repo_Git (repo s1) ''rev-parse'' [''-q'', ''--verify'', name]) s1 = (oc, s2)"
  shows "Repo_Ref git name s =
           (if run_err oc \<noteq> None then (Ret (Some \<lparr>SHA = name, Path = name\<rparr>, None), s2)
            else (Ret (None, Some (''No ref for '' @ name)), s2))"
  using assms by (simp add: Repo_Ref_def)

text \<open>
  C5: \<open>Repo.Ref(name)\<close> looks the cache up under the bare name, then under
  \<open>refs/heads/\<close> followed by the name, then under \<open>refs/tags\<close> followed by the name
  with no slash between, then under \<open>refs/remotes\<close> followed by the name likewise, and
  returns the first entry it finds. So an entry under the bare key wins over a branch entry
  for the same name. The cache is the one \<open>load_refs\<close> leaves.
\<close>

theorem Ref_lookup_priority:
  assumes "load_refs git s = (Ret (), s1)"
  shows
    "(refs_get (repo s1) name = Some x \<longrightarrow>
        Repo_Ref git name s = (Ret (Some x, None), s1)) \<and>
     (refs_get (repo s1) name = None \<and>
      refs_get (repo s1) (''refs/heads/'' @ name) = Some x \<longrightarrow>
        Repo_Ref git name s = (Ret (Some x, None), s1)) \<and>
     (refs_get (repo s1) name = None \<and>
      refs_get (repo s1) (''refs/heads/'' @ name) = None \<and>
      refs_get (repo s1) (''refs/tags'' @ name) = Some x \<longrightarrow>
        Repo_Ref git name s = (Ret (Some x, None), s1)) \<and>
     (refs_get (repo s1) name = None \<and>
      refs_get (repo s1) (''refs/heads/'' @ name) = None \<and>
      refs_get (repo s1) (''refs/tags'' @ name) = None \<and>
      refs_get (repo s1) (''refs/remotes'' @ name) = Some x \<longrightarrow>
        Repo_Ref git name s = (Ret (Some x, None), s1))"
  using assms by (simp add: Repo_Ref_def ref_prefixes_def)

theorem Ref_lookup_priority_witness:
  "Repo_Ref strict_git ''foo''
      (loaded [''foo'' \<mapsto> \<lparr>SHA = ''foo'', Path = ''foo''\<rparr>,
               ''refs/heads/foo'' \<mapsto> \<lparr>SHA = ''4444'', Path = ''refs/heads/refs/heads/foo''\<rparr>])
     = (Ret (Some \<lparr>SHA = ''foo'', Path = ''foo''\<rparr>, None),
        loaded [''foo'' \<mapsto> \<lparr>SHA = ''foo'', Path = ''foo''\<rparr>,
                ''refs/heads/foo'' \<mapsto> \<lparr>SHA = ''4444'', Path = ''refs/heads/refs/heads/foo''\<rparr>]) \<and>
   Repo_Ref strict_git ''foo''
      (loaded [''refs/heads/foo'' \<mapsto> \<lparr>SHA = ''4444'', Path = ''refs/heads/refs/heads/foo''\<rparr>,
               ''refs/tagsfoo'' \<mapsto> \<lparr>SHA = ''5555'', Path = ''refs/heads/refs/tagsfoo''\<rparr>])
     = (Ret (Some \<lparr>SHA = ''4444'', Path = ''refs/heads/refs/heads/foo''\<rparr>, None),
        loaded [''refs/heads/foo'' \<mapsto> \<lparr>SHA = ''4444'', Path = ''refs/heads/refs/heads/foo''\<rparr>,
                ''refs/tagsfoo'' \<mapsto> \<lparr>SHA = ''5555'', Path = ''refs/heads/refs/tagsfoo''\<rparr>]) \<and>
   Repo_Ref strict_git ''foo''
      (loaded [''refs/tagsfoo'' \<mapsto> \<lparr>SHA = ''5555'', Path = ''refs/heads/refs/tagsfoo''\<rparr>,
               ''refs/remotesfoo'' \<mapsto> \<lparr>SHA = ''6666'', Path = ''refs/heads/refs/remotesfoo''\<rparr>])
     = (Ret (Some \<lparr>SHA = ''5555'', Path = ''refs/heads/refs/tagsfoo''\<rparr>, None),
        loaded [''refs/tagsfoo'' \<mapsto> \<lparr>SHA = ''5555'', Path = ''refs/heads/refs/tagsfoo''\<rparr>,
                ''refs/remotesfoo'' \<mapsto> \<lparr>SHA = ''6666'', Path = ''refs/heads/refs/remotesfoo''\<rparr>]) \<and>
   Repo_Ref strict_git ''foo''
      (loaded [''refs/remotesfoo'' \<mapsto> \<lparr>SHA = ''6666'', Path = ''refs/heads/refs/remotesfoo''\<rparr>])
     = (Ret (Some \<lparr>SHA = ''6666'', Path = ''refs/heads/refs/remotesfoo''\<rparr>, None),
        loaded [''refs/remotesfoo'' \<mapsto> \<lparr>SHA = ''6666'', Path = ''refs/heads/refs/remotesfoo''\<rparr>])"
proof -
  let ?A = "\<lparr>SHA = ''foo'', Path = ''foo''\<rparr>"
  let ?B = "\<lparr>SHA = ''4444'', Path = ''refs/heads/refs/heads/foo''\<rparr>"
  let ?C = "\<lparr>SHA = ''5555'', Path = ''refs/heads/refs/tagsfoo''\<rparr>"
  let ?D = "\<lparr>SHA = ''6666'', Path = ''refs/heads/refs/remotesfoo''\<rparr>"
  let ?m1 = "[''foo'' \<mapsto> ?A, ''refs/heads/foo'' \<mapsto> ?B]"
  let ?m2 = "[''refs/heads/foo'' \<mapsto> ?B, ''refs/tagsfoo'' \<mapsto> ?C]"
  let ?m3 = "[''refs/tagsfoo'' \<mapsto> ?C, ''refs/remotesfoo'' \<mapsto> ?D]"
  let ?m4 = "[''refs/remotesfoo'' \<mapsto> ?D]"
  have l: "load_refs strict_git (loaded m) = (Ret (), loaded m)" for m
    by (rule load_refs_loaded) (simp add: loaded_def set_refs_def)
  show ?thesis
    using Ref_lookup_priority [OF l [of ?m1], of "''foo''" ?A]
      Ref_lookup_priority [OF l [of ?m2], of "''foo''" ?B]
      Ref_lookup_priority [OF l [of ?m3], of "''foo''" ?C]
      Ref_lookup_priority [OF l [of ?m4], of "''foo''" ?D]
    by (simp add: refs_get_def loaded_def set_refs_def)
qed

text \<open>
  C1, on the code. The spec says that a name found under none of the four keys is verified
  as a raw revision, that a successful verification gives the raw ref with
  \<open>SHA = Path = name\<close>, and that a failed one gives the error. The code tests
  \<open>cmd.Run() != nil\<close>: in the repository below \<open>deadbeef\<close> is under no key; where git
  verifies it, \<open>Repo.Ref\<close> returns the error \<open>No ref for deadbeef\<close> and no ref, and where
  git rejects it, \<open>Repo.Ref\<close> returns the raw ref and no error.
\<close>

theorem Ref_verification_inverted:
  "Repo_Ref plain_git ''deadbeef'' fresh
     = (Ret (None, Some ''No ref for deadbeef''),
        set_refs (Some plain_refs)
          (fresh\<lparr>calls := [ran_cmd [''show-ref''],
                            ran_cmd [''rev-parse'', ''-q'', ''--verify'', ''deadbeef'']]\<rparr>)) \<and>
   Repo_Ref strict_git ''deadbeef'' fresh
     = (Ret (Some \<lparr>SHA = ''deadbeef'', Path = ''deadbeef''\<rparr>, None),
        set_refs (Some plain_refs)
          (fresh\<lparr>calls := [ran_cmd [''show-ref''],
                            ran_cmd [''rev-parse'', ''-q'', ''--verify'', ''deadbeef'']]\<rparr>))"
proof -
  let ?s1 = "set_refs (Some plain_refs) (fresh\<lparr>calls := [ran_cmd [''show-ref'']]\<rparr>)"
  have miss: "lookup_prefixes (repo ?s1) ref_prefixes ''deadbeef'' = None"
    by (simp add: ref_prefixes_def refs_get_def set_refs_def plain_refs_def fresh_def)
  have "Repo_Ref plain_git ''deadbeef'' fresh
      = (Ret (None, Some ''No ref for deadbeef''),
         ?s1\<lparr>calls := calls ?s1 @ [ran_cmd [''rev-parse'', ''-q'', ''--verify'', ''deadbeef'']]\<rparr>)"
    by (simp add: Repo_Ref_def load_plain miss)
       (simp add: run_simps plain_git_def ran_cmd_def)
  moreover have "Repo_Ref strict_git ''deadbeef'' fresh
      = (Ret (Some \<lparr>SHA = ''deadbeef'', Path = ''deadbeef''\<rparr>, None),
         ?s1\<lparr>calls := calls ?s1 @ [ran_cmd [''rev-parse'', ''-q'', ''--verify'', ''deadbeef'']]\<rparr>)"
    by (simp add: Repo_Ref_def load_strict miss)
       (simp add: run_simps strict_git_def ran_cmd_def)
  ultimately show ?thesis
    by (simp add: set_refs_def fresh_def)
qed

section \<open>Creating a ref\<close>

lemma load_refs_calls:
  "load_refs git s = (u, s1) \<Longrightarrow>
     calls s1 = calls s \<or> calls s1 = calls s @ [Repo_Git (repo s) ''show-ref'' []]"
  by (auto simp: load_refs_def Run_def set_refs_def
           split: option.splits prod.splits if_splits result.splits)

text \<open>
  C7, as stated: for every repository, \<open>make_ref\<close> with the name \<open>HEAD\<close> returns
  the reserved-name error. \<open>make_ref\<close> loads the ref cache before it looks at the
  name, and \<open>load_refs\<close> panics when \<open>git show-ref\<close> fails, as it does in a
  repository without refs: there \<open>make_ref\<close> panics and returns no error.
\<close>

theorem make_ref_HEAD_panics_unloaded:
  "make_ref empty_git ''branch'' ''HEAD'' (BaseString ''main'') fresh
     = (Panic (PanicMsg []), fresh\<lparr>calls := [ran_cmd [''show-ref'']]\<rparr>)"
  by (simp add: make_ref_def load_refs_def run_simps empty_git_def ran_cmd_def)

text \<open>
  C7, amended: for every repository whose ref cache is loaded or loads (\<open>load_refs\<close>
  returns), every ref kind and every base, \<open>make_ref\<close> (and so \<open>Branch\<close> and
  \<open>Tag\<close>) with the name \<open>HEAD\<close> returns the reserved-name error, and with a name
  that is a key of the loaded cache returns the already-exists error. In both cases the
  state returned is the one \<open>load_refs\<close> left: the cache is as loaded, and the only
  command that can have run is the \<open>show-ref\<close> of the load, so no create command ran.
\<close>

theorem make_ref_guards:
  assumes "load_refs git s = (Ret (), s1)"
  shows
    "make_ref git reftype ''HEAD'' b s
       = (Ret (None, Some ''Cannot create a branch named HEAD.''), s1) \<and>
     Branch git ''HEAD'' b s = (Ret (None, Some ''Cannot create a branch named HEAD.''), s1) \<and>
     Tag git ''HEAD'' b s = (Ret (None, Some ''Cannot create a branch named HEAD.''), s1) \<and>
     (name \<noteq> ''HEAD'' \<and> refs_get (repo s1) name \<noteq> None \<longrightarrow>
        make_ref git reftype name b s = (Ret (None, Some (name @ '' already exists.'')), s1) \<and>
        Branch git name b s = (Ret (None, Some (name @ '' already exists.'')), s1) \<and>
        Tag git name b s = (Ret (None, Some (name @ '' already exists.'')), s1)) \<and>
     (calls s1 = calls s \<or> calls s1 = calls s @ [Repo_Git (repo s) ''show-ref'' []])"
  using assms load_refs_calls [OF assms]
  by (simp add: make_ref_def Branch_def Tag_def)

theorem make_ref_guards_witness:
  "make_ref plain_git ''branch'' ''HEAD'' (BaseString ''main'') fresh
     = (Ret (None, Some ''Cannot create a branch named HEAD.''),
        set_refs (Some plain_refs) (fresh\<lparr>calls := [ran_cmd [''show-ref'']]\<rparr>)) \<and>
   Tag plain_git ''main'' (BaseRef (Some \<lparr>SHA = ''3333'', Path = ''refs/tags/v1''\<rparr>)) fresh
     = (Ret (None, Some ''main already exists.''),
        set_refs (Some plain_refs) (fresh\<lparr>calls := [ran_cmd [''show-ref'']]\<rparr>)) \<and>
   calls (set_refs (Some plain_refs) (fresh\<lparr>calls := [ran_cmd [''show-ref'']]\<rparr>))
     = [ran_cmd [''show-ref'']]"
  using make_ref_guards [OF load_plain, of "''branch''" "BaseString ''main''" "''main''"]
    make_ref_guards [OF load_plain, of "''tag''"
      "BaseRef (Some \<lparr>SHA = ''3333'', Path = ''refs/tags/v1''\<rparr>)" "''main''"]
  by (simp add: refs_get_def set_refs_def plain_refs_def fresh_def)

section \<open>Tracking a remote\<close>

lemma TrackRemote_already:
  assumes "IsLocal r"
    and "store s (''branch.'' @ Name r @ ''.remote'') = Some remote"
    and "store s (''branch.'' @ Name r @ ''.merge'') = Some (Path r)"
  shows "TrackRemote r remote s = (None, s)"
  using assms by (simp add: TrackRemote_def Get_def)

lemma TrackRemote_rewrite:
  assumes "IsLocal r"
    and "\<not> (store s (''branch.'' @ Name r @ ''.remote'') = Some remote \<and>
            store s (''branch.'' @ Name r @ ''.merge'') = Some (Path r))"
  shows "TrackRemote r remote s =
           (None,
            Set (''branch.'' @ Name r @ ''.merge'') (Path r)
              (Set (''branch.'' @ Name r @ ''.remote'') remote
                 (if store s (''branch.'' @ Name r @ ''.remote'') \<noteq> None \<or>
                     store s (''branch.'' @ Name r @ ''.merge'') \<noteq> None
                  then maybeKillSection (''branch.'' @ Name r) s else s)))"
  using assms by (auto simp: TrackRemote_def Get_def Let_def split: option.splits)

lemma store_after_writes:
  "store (Set (sec @ ''.merge'') p (Set (sec @ ''.remote'') remote t)) (sec @ ''.remote'')
     = Some remote \<and>
   store (Set (sec @ ''.merge'') p (Set (sec @ ''.remote'') remote t)) (sec @ ''.merge'')
     = Some p"
  by (simp add: Set_def)

text \<open>
  C8: for every local ref \<open>r\<close> and every remote: when the store already maps
  \<open>branch.<name>.remote\<close> to the remote and \<open>branch.<name>.merge\<close> to \<open>r.Path\<close>,
  \<open>TrackRemote\<close> writes nothing, clears nothing and returns nil. Otherwise it returns nil
  after writing the two keys, \<open>.remote\<close> then \<open>.merge\<close>: when one of the two keys
  exists it clears the section \<open>branch.<name>\<close> first, and when neither exists it
  clears nothing and makes just the two writes. In every case the store then maps the two
  keys to the remote and to \<open>r.Path\<close>, so a second call right after the first does
  nothing: the state it returns is the state it was given. All the writes are those of the
  first call.
\<close>

theorem TrackRemote_idempotent:
  assumes "IsLocal r"
  shows
    "(store s (''branch.'' @ Name r @ ''.remote'') = Some remote \<and>
      store s (''branch.'' @ Name r @ ''.merge'') = Some (Path r) \<longrightarrow>
        TrackRemote r remote s = (None, s)) \<and>
     (\<not> (store s (''branch.'' @ Name r @ ''.remote'') = Some remote \<and>
         store s (''branch.'' @ Name r @ ''.merge'') = Some (Path r)) \<and>
      (store s (''branch.'' @ Name r @ ''.remote'') \<noteq> None \<or>
       store s (''branch.'' @ Name r @ ''.merge'') \<noteq> None) \<longrightarrow>
        fst (TrackRemote r remote s) = None \<and>
        snd (TrackRemote r remote s) =
          Set (''branch.'' @ Name r @ ''.merge'') (Path r)
            (Set (''branch.'' @ Name r @ ''.remote'') remote
               (maybeKillSection (''branch.'' @ Name r) s)) \<and>
        store_ops (snd (TrackRemote r remote s)) =
          store_ops s @ [KillSection (''branch.'' @ Name r),
                         SetKey (''branch.'' @ Name r @ ''.remote'') remote,
                         SetKey (''branch.'' @ Name r @ ''.merge'') (Path r)]) \<and>
     (store s (''branch.'' @ Name r @ ''.remote'') = None \<and>
      store s (''branch.'' @ Name r @ ''.merge'') = None \<longrightarrow>
        fst (TrackRemote r remote s) = None \<and>
        snd (TrackRemote r remote s) =
          Set (''branch.'' @ Name r @ ''.merge'') (Path r)
            (Set (''branch.'' @ Name r @ ''.remote'') remote s) \<and>
        store_ops (snd (TrackRemote r remote s)) =
          store_ops s @ [SetKey (''branch.'' @ Name r @ ''.remote'') remote,
                         SetKey (''branch.'' @ Name r @ ''.merge'') (Path r)]) \<and>
     store (snd (TrackRemote r remote s)) (''branch.'' @ Name r @ ''.remote'') = Some remote \<and>
     store (snd (TrackRemote r remote s)) (''branch.'' @ Name r @ ''.merge'') = Some (Path r) \<and>
     TrackRemote r remote (snd (TrackRemote r remote s))
       = (None, snd (TrackRemote r remote s))"
proof (cases "store s (''branch.'' @ Name r @ ''.remote'') = Some remote \<and>
              store s (''branch.'' @ Name r @ ''.merge'') = Some (Path r)")
  case True
  then have "TrackRemote r remote s = (None, s)"
    using assms by (simp add: TrackRemote_already)
  with True show ?thesis by simp
next
  case False
  let ?sec = "''branch.'' @ Name r"
  let ?rk = "''branch.'' @ Name r @ ''.remote''"
  let ?mk = "''branch.'' @ Name r @ ''.merge''"
  let ?t = "if store s ?rk \<noteq> None \<or> store s ?mk \<noteq> None
            then maybeKillSection ?sec s else s"
  let ?s3 = "Set ?mk (Path r) (Set ?rk remote ?t)"
  have first: "TrackRemote r remote s = (None, ?s3)"
    using TrackRemote_rewrite [OF assms, of s remote] False by simp
  have after: "store ?s3 ?rk = Some remote \<and> store ?s3 ?mk = Some (Path r)"
    using store_after_writes [of ?sec "Path r" remote ?t] by simp
  have second: "TrackRemote r remote ?s3 = (None, ?s3)"
    using after assms by (simp add: TrackRemote_already)
  have ops_kill: "store_ops (Set k2 v2 (Set k1 v1 (maybeKillSection sec s)))
               = store_ops s @ [KillSection sec, SetKey k1 v1, SetKey k2 v2]"
    for k1 v1 k2 v2 sec
    by (simp add: Set_def maybeKillSection_def)
  have ops_plain: "store_ops (Set k2 v2 (Set k1 v1 s)) = store_ops s @ [SetKey k1 v1, SetKey k2 v2]"
    for k1 v1 k2 v2
    by (simp add: Set_def)
  have c1: "store s ?rk = Some remote \<and> store s ?mk = Some (Path r) \<longrightarrow>
              TrackRemote r remote s = (None, s)"
    using False by blast
  have c2: "\<not> (store s ?rk = Some remote \<and> store s ?mk = Some (Path r)) \<and>
            (store s ?rk \<noteq> None \<or> store s ?mk \<noteq> None) \<longrightarrow>
              fst (TrackRemote r remote s) = None \<and>
              snd (TrackRemote r remote s) =
                Set ?mk (Path r) (Set ?rk remote (maybeKillSection ?sec s)) \<and>
              store_ops (snd (TrackRemote r remote s)) =
                store_ops s @ [KillSection ?sec, SetKey ?rk remote, SetKey ?mk (Path r)]"
  proof
    assume "\<not> (store s ?rk = Some remote \<and> store s ?mk = Some (Path r)) \<and>
            (store s ?rk \<noteq> None \<or> store s ?mk \<noteq> None)"
    then have "?t = maybeKillSection ?sec s"
      by simp
    with first have "TrackRemote r remote s
        = (None, Set ?mk (Path r) (Set ?rk remote (maybeKillSection ?sec s)))"
      by simp
    then show "fst (TrackRemote r remote s) = None \<and>
              snd (TrackRemote r remote s) =
                Set ?mk (Path r) (Set ?rk remote (maybeKillSection ?sec s)) \<and>
              store_ops (snd (TrackRemote r remote s)) =
                store_ops s @ [KillSection ?sec, SetKey ?rk remote, SetKey ?mk (Path r)]"
      by (simp add: ops_kill)
  qed
  have c3: "store s ?rk = None \<and> store s ?mk = None \<longrightarrow>
              fst (TrackRemote r remote s) = None \<and>
              snd (TrackRemote r remote s) = Set ?mk (Path r) (Set ?rk remote s) \<and>
              store_ops (snd (TrackRemote r remote s)) =
                store_ops s @ [SetKey ?rk remote, SetKey ?mk (Path r)]"
  proof
    assume "store s ?rk = None \<and> store s ?mk = None"
    then have "?t = s"
      by simp
    with first have "TrackRemote r remote s = (None, Set ?mk (Path r) (Set ?rk remote s))"
      by simp
    then show "fst (TrackRemote r remote s) = None \<and>
              snd (TrackRemote r remote s) = Set ?mk (Path r) (Set ?rk remote s) \<and>
              store_ops (snd (TrackRemote r remote s)) =
                store_ops s @ [SetKey ?rk remote, SetKey ?mk (Path r)]"
      by (simp add: ops_plain)
  qed
  have c4: "store (snd (TrackRemote r remote s)) ?rk = Some remote"
    using first after by simp
  have c5: "store (snd (TrackRemote r remote s)) ?mk = Some (Path r)"
    using first after by simp
  have c6: "TrackRemote r remote (snd (TrackRemote r remote s))
              = (None, snd (TrackRemote r remote s))"
    using first second by simp
  from c1 c2 c3 c4 c5 c6 show ?thesis
    by blast
qed

theorem TrackRemote_idempotent_witness:
  "TrackRemote \<lparr>SHA = ''1111'', Path = ''refs/heads/main''\<rparr> ''origin''
      (configured [''branch.main.remote'' \<mapsto> ''origin'',
                   ''branch.main.merge'' \<mapsto> ''refs/heads/main''])
     = (None, configured [''branch.main.remote'' \<mapsto> ''origin'',
                          ''branch.main.merge'' \<mapsto> ''refs/heads/main'']) \<and>
   store_ops (snd (TrackRemote \<lparr>SHA = ''1111'', Path = ''refs/heads/main''\<rparr> ''origin''
      (configured [''branch.main.remote'' \<mapsto> ''upstream''])))
     = [KillSection ''branch.main'', SetKey ''branch.main.remote'' ''origin'',
        SetKey ''branch.main.merge'' ''refs/heads/main''] \<and>
   TrackRemote \<lparr>SHA = ''1111'', Path = ''refs/heads/main''\<rparr> ''origin''
      (snd (TrackRemote \<lparr>SHA = ''1111'', Path = ''refs/heads/main''\<rparr> ''origin''
         (configured [''branch.main.remote'' \<mapsto> ''upstream''])))
     = (None, snd (TrackRemote \<lparr>SHA = ''1111'', Path = ''refs/heads/main''\<rparr> ''origin''
         (configured [''branch.main.remote'' \<mapsto> ''upstream'']))) \<and>
   store_ops (snd (TrackRemote \<lparr>SHA = ''1111'', Path = ''refs/heads/main''\<rparr> ''origin''
      (configured Map.empty)))
     = [SetKey ''branch.main.remote'' ''origin'',
        SetKey ''branch.main.merge'' ''refs/heads/main''] \<and>
   store (snd (TrackRemote \<lparr>SHA = ''1111'', Path = ''refs/heads/main''\<rparr> ''origin''
      (configured Map.empty))) ''branch.main.remote'' = Some ''origin'' \<and>
   store (snd (TrackRemote \<lparr>SHA = ''1111'', Path = ''refs/heads/main''\<rparr> ''origin''
      (configured Map.empty))) ''branch.main.merge'' = Some ''refs/heads/main'' \<and>
   TrackRemote \<lparr>SHA = ''1111'', Path = ''refs/heads/main''\<rparr> ''origin''
      (snd (TrackRemote \<lparr>SHA = ''1111'', Path = ''refs/heads/main''\<rparr> ''origin''
         (configured Map.empty)))
     = (None, snd (TrackRemote \<lparr>SHA = ''1111'', Path = ''refs/heads/main''\<rparr> ''origin''
         (configured Map.empty)))"
proof -
  let ?r = "\<lparr>SHA = ''1111'', Path = ''refs/heads/main''\<rparr>"
  have loc: "IsLocal ?r"
    by (simp add: IsLocal_def)
  have nm: "Name ?r = ''main''"
    by (simp add: Name_def SplitN_3)
  let ?sa = "configured [''branch.main.remote'' \<mapsto> ''origin'',
                         ''branch.main.merge'' \<mapsto> ''refs/heads/main'']"
  let ?sb = "configured [''branch.main.remote'' \<mapsto> ''upstream'']"
  let ?sc = "configured Map.empty"
  note a = TrackRemote_idempotent [OF loc, of ?sa "''origin''"]
  note b = TrackRemote_idempotent [OF loc, of ?sb "''origin''"]
  note c = TrackRemote_idempotent [OF loc, of ?sc "''origin''"]
  from a have c1: "TrackRemote ?r ''origin'' ?sa = (None, ?sa)"
    by (simp add: nm configured_def)
  from b [THEN conjunct2, THEN conjunct1]
  have c2: "store_ops (snd (TrackRemote ?r ''origin'' ?sb))
      = [KillSection ''branch.main'', SetKey ''branch.main.remote'' ''origin'',
         SetKey ''branch.main.merge'' ''refs/heads/main'']"
    by (simp add: nm configured_def fresh_def Set_def maybeKillSection_def)
  from b [THEN conjunct2, THEN conjunct2, THEN conjunct2, THEN conjunct2, THEN conjunct2]
  have c3: "TrackRemote ?r ''origin'' (snd (TrackRemote ?r ''origin'' ?sb))
      = (None, snd (TrackRemote ?r ''origin'' ?sb))" .
  from c [THEN conjunct2, THEN conjunct2, THEN conjunct1]
  have c4: "store_ops (snd (TrackRemote ?r ''origin'' ?sc))
      = [SetKey ''branch.main.remote'' ''origin'',
         SetKey ''branch.main.merge'' ''refs/heads/main'']"
    by (simp add: nm configured_def fresh_def Set_def)
  from c [THEN conjunct2, THEN conjunct2, THEN conjunct2, THEN conjunct1]
  have c5: "store (snd (TrackRemote ?r ''origin'' ?sc)) ''branch.main.remote'' = Some ''origin''"
    by (simp add: nm)
  from c [THEN conjunct2, THEN conjunct2, THEN conjunct2, THEN conjunct2, THEN conjunct1]
  have c6: "store (snd (TrackRemote ?r ''origin'' ?sc)) ''branch.main.merge''
      = Some ''refs/heads/main''"
    by (simp add: nm)
  from c [THEN conjunct2, THEN conjunct2, THEN conjunct2, THEN conjunct2, THEN conjunct2]
  have c7: "TrackRemote ?r ''origin'' (snd (TrackRemote ?r ''origin'' ?sc))
      = (None, snd (TrackRemote ?r ''origin'' ?sc))" .
  from c1 c2 c3 c4 c5 c6 c7 show ?thesis by blast
qed

section \<open>Parsing the status report\<close>

lemma rename_parse:
  "mapStatus_loop rename_text None []
     = Ret [\<lparr>indexStat = ''R'', workStat = '' '',
             oldPath = ''new.txt'' @ [CHR 0x00], newPath = ''old.txt'' @ [CHR 0x00]\<rparr>]"
  by (simp add: rename_text_def mapStatus_loop.simps ReadString_def FindStringSubmatch_def
        stat_code_def flush_def)

lemma mapStatus_rename:
  assumes "Run git (Repo_Git (repo s) ''status'' [''--porcelain'', ''-z'']) s = (oc, s1)"
    and "run_err oc = None"
    and "stdout oc = rename_text"
  shows "mapStatus git s
           = (Ret [\<lparr>indexStat = ''R'', workStat = '' '',
                    oldPath = ''new.txt'' @ [CHR 0x00], newPath = ''old.txt'' @ [CHR 0x00]\<rparr>],
              s1)"
  using assms by (simp add: mapStatus_def rename_parse)

text \<open>
  C2, on the code. The spec says that the report \<open>R  new.txt\<close>, NUL, \<open>old.txt\<close>,
  NUL, which is what \<open>git status --porcelain -z\<close> writes for the rename of \<open>old.txt\<close>
  to \<open>new.txt\<close> (with \<open>-z\<close> the new path comes first), parses to one line with
  \<open>oldPath = old.txt\<close>, \<open>newPath = new.txt\<close> and \<open>indexStat = R\<close>. The code returns
  one line with \<open>indexStat = R\<close>, but it stores the path of the status record, the new
  one, in \<open>oldPath\<close> and the record after it, the old one, in \<open>newPath\<close>, so that
  \<open>Print\<close> reports the rename backwards; and \<open>ReadString\<close> leaves the NUL at the end
  of both paths.
\<close>

theorem rename_report_parsed:
  "mapStatus status_git fresh
     = (Ret [\<lparr>indexStat = ''R'', workStat = '' '',
              oldPath = ''new.txt'' @ [CHR 0x00], newPath = ''old.txt'' @ [CHR 0x00]\<rparr>],
        fresh\<lparr>calls := [ran_cmd [''status'', ''--porcelain'', ''-z'']]\<rparr>)"
  by (simp add: mapStatus_def run_simps status_git_def rename_parse ran_cmd_def)

section \<open>The keys of the ref cache\<close>

lemma load_loop_keys:
  assumes "load_loop toks res = Ret m"
    and "\<And>k ref. res k = Some ref \<Longrightarrow> Name ref = k"
    and "m k = Some ref"
  shows "Name ref = k"
  using assms
proof (induction toks arbitrary: res)
  case Nil
  then show ?case by simp
next
  case (Cons tok rest)
  from Cons.prems(1) obtain p0 p1 ps
    where parts: "SplitN (TrimSpace tok) CHR '' '' 2 = p0 # p1 # ps"
    by (auto split: list.splits)
  let ?new = "\<lparr>SHA = p0, Path = p1\<rparr>"
  from Cons.prems(1) parts have rest: "load_loop rest (res(Name ?new \<mapsto> ?new)) = Ret m"
    by (simp add: Let_def)
  have inv: "Name ref' = k'" if "(res(Name ?new \<mapsto> ?new)) k' = Some ref'" for k' ref'
    using that Cons.prems(2) by (auto split: if_splits)
  show ?case
    by (rule Cons.IH [OF rest inv Cons.prems(3)])
qed

lemma load_refs_keys:
  assumes "refs (repo s) = None" and "load_refs git s = (Ret (), s1)"
    and "refs_get (repo s1) k = Some ref"
  shows "Name ref = k"
proof -
  from assms(1,2) obtain oc :: outcome and s' m where
    "load_loop (scan_tokens (stdout oc)) Map.empty = Ret m" and "s1 = set_refs (Some m) s'"
    by (auto simp: load_refs_def split: prod.splits if_splits result.splits)
  with assms(3) show ?thesis
    using load_loop_keys [of "scan_tokens (stdout oc)" Map.empty m k ref]
    by (simp add: refs_get_def set_refs_def)
qed

lemma load_odd:
  "load_refs odd_git fresh
     = (Ret (), set_refs (Some odd_refs) (fresh\<lparr>calls := [ran_cmd [''show-ref'']]\<rparr>))"
  by (simp add: run_simps load_simps odd_git_def odd_text_def odd_refs_def ran_cmd_def)

text \<open>
  C3, as stated: the keys of the loaded cache are short names, and so, where every
  enumerated path is \<open>HEAD\<close> or \<open>refs/<type>/...\<close>, \<open>RemoteBranch\<close> fails and
  \<open>HasRemoteRef\<close> is false for every local ref and remote. In the repository below both
  paths have the standard form, yet the short name of the second is
  \<open>refs/remotes/origin/main\<close>: for the branch \<open>main\<close> and the remote \<open>origin\<close>,
  \<open>RemoteBranch\<close> returns that ref and \<open>HasRemoteRef\<close> returns true.
\<close>

theorem remote_lookup_hits_odd_branch:
  "standard_form ''refs/heads/main'' \<and>
   standard_form ''refs/heads/refs/remotes/origin/main'' \<and>
   IsLocal \<lparr>SHA = ''1111'', Path = ''refs/heads/main''\<rparr> \<and>
   load_refs odd_git fresh
     = (Ret (), set_refs (Some odd_refs) (fresh\<lparr>calls := [ran_cmd [''show-ref'']]\<rparr>)) \<and>
   RemoteBranch \<lparr>SHA = ''1111'', Path = ''refs/heads/main''\<rparr> ''origin''
      (set_refs (Some odd_refs) (fresh\<lparr>calls := [ran_cmd [''show-ref'']]\<rparr>))
     = (Some \<lparr>SHA = ''4444'', Path = ''refs/heads/refs/remotes/origin/main''\<rparr>, None) \<and>
   HasRemoteRef odd_git \<lparr>SHA = ''1111'', Path = ''refs/heads/main''\<rparr> ''origin''
      (set_refs (Some odd_refs) (fresh\<lparr>calls := [ran_cmd [''show-ref'']]\<rparr>))
     = (Ret True, set_refs (Some odd_refs) (fresh\<lparr>calls := [ran_cmd [''show-ref'']]\<rparr>))"
proof -
  let ?s1 = "set_refs (Some odd_refs) (fresh\<lparr>calls := [ran_cmd [''show-ref'']]\<rparr>)"
  have again: "load_refs odd_git ?s1 = (Ret (), ?s1)"
    by (rule load_refs_loaded) (simp add: set_refs_def)
  show ?thesis
    by (simp add: standard_form_def SplitN_3 IsLocal_def load_odd RemoteBranch_def
          HasRemoteRef_def HasRef_def again Name_def)
       (simp add: refs_get_def set_refs_def odd_refs_def)
qed

text \<open>
  C3, amended: after \<open>load_refs\<close> has populated the cache, every key of the cache is the
  short name \<open>Name\<close> of the ref stored under it. So for every local ref \<open>r\<close> and every
  remote, in a repository where no cached ref has a short name that begins with
  \<open>refs/remotes/\<close>, \<open>r.RemoteBranch(remote)\<close> returns the no-remote-branch error and
  \<open>r.HasRemoteRef(remote)\<close> returns false.
\<close>

theorem cache_keys_are_names:
  assumes "refs (repo s) = None" and "load_refs git s = (Ret (), s1)"
  shows
    "(\<forall>k ref. refs_get (repo s1) k = Some ref \<longrightarrow> Name ref = k) \<and>
     (IsLocal r \<and>
      (\<forall>k ref. refs_get (repo s1) k = Some ref \<longrightarrow> \<not> prefix ''refs/remotes/'' (Name ref)) \<longrightarrow>
        RemoteBranch r remote s1
          = (None, Some (Path r @ '' has no remote branch at '' @ remote @ [CHR 0x0A])) \<and>
        HasRemoteRef git r remote s1 = (Ret False, s1))"
proof -
  have keys: "Name ref = k" if "refs_get (repo s1) k = Some ref" for k ref
    using load_refs_keys [OF assms that] .
  obtain m where m: "refs (repo s1) = Some m"
    using load_refs_Ret_loaded [OF assms(2)] by blast
  have again: "load_refs git s1 = (Ret (), s1)"
    using m by (rule load_refs_loaded)
  have miss: "refs_get (repo s1) (''refs/remotes/'' @ remote @ ''/'' @ Name r) = None"
    if clean: "\<forall>k ref. refs_get (repo s1) k = Some ref \<longrightarrow> \<not> prefix ''refs/remotes/'' (Name ref)"
  proof (cases "refs_get (repo s1) (''refs/remotes/'' @ remote @ ''/'' @ Name r)")
    case None
    then show ?thesis .
  next
    case (Some ref)
    then have "Name ref = ''refs/remotes/'' @ remote @ ''/'' @ Name r"
      by (rule keys)
    moreover have "\<not> prefix ''refs/remotes/'' (Name ref)"
      using clean Some by blast
    ultimately show ?thesis by simp
  qed
  show ?thesis
    using keys miss by (auto simp: RemoteBranch_def HasRemoteRef_def HasRef_def again)
qed

theorem cache_keys_are_names_witness:
  "refs_get (repo (set_refs (Some plain_refs) (fresh\<lparr>calls := [ran_cmd [''show-ref'']]\<rparr>)))
      ''origin/main''
     = Some \<lparr>SHA = ''2222'', Path = ''refs/remotes/origin/main''\<rparr> \<and>
   Name \<lparr>SHA = ''2222'', Path = ''refs/remotes/origin/main''\<rparr> = ''origin/main'' \<and>
   RemoteBranch \<lparr>SHA = ''1111'', Path = ''refs/heads/main''\<rparr> ''origin''
      (set_refs (Some plain_refs) (fresh\<lparr>calls := [ran_cmd [''show-ref'']]\<rparr>))
     = (None, Some (''refs/heads/main has no remote branch at origin'' @ [CHR 0x0A])) \<and>
   HasRemoteRef plain_git \<lparr>SHA = ''1111'', Path = ''refs/heads/main''\<rparr> ''origin''
      (set_refs (Some plain_refs) (fresh\<lparr>calls := [ran_cmd [''show-ref'']]\<rparr>))
     = (Ret False, set_refs (Some plain_refs) (fresh\<lparr>calls := [ran_cmd [''show-ref'']]\<rparr>))"
proof -
  let ?s1 = "set_refs (Some plain_refs) (fresh\<lparr>calls := [ran_cmd [''show-ref'']]\<rparr>)"
  let ?r = "\<lparr>SHA = ''1111'', Path = ''refs/heads/main''\<rparr>"
  have unloaded: "refs (repo fresh) = None"
    by (simp add: fresh_def)
  have loc: "IsLocal ?r"
    by (simp add: IsLocal_def)
  have entry: "refs_get (repo ?s1) ''origin/main''
      = Some \<lparr>SHA = ''2222'', Path = ''refs/remotes/origin/main''\<rparr>"
    by (simp add: refs_get_def set_refs_def plain_refs_def)
  have clean: "\<forall>k ref. refs_get (repo ?s1) k = Some ref \<longrightarrow> \<not> prefix ''refs/remotes/'' (Name ref)"
    by (auto simp: refs_get_def set_refs_def plain_refs_def Name_def SplitN_3 split: if_splits)
  show ?thesis
    using cache_keys_are_names [OF unloaded load_plain, of ?r "''origin''"] loc clean entry
    by simp
qed


end
